theory Spec2Isabelle
  imports Complex_Main "HOL-Library.Word"
begin

unbundle bit_operations_syntax

section \<open>Bytes, strings and the standard-library encoders the client calls\<close>

text \<open>
  A Go \<open>string\<close> is a sequence of bytes and so is an Isabelle \<open>string\<close>; a
  \<open>[]byte\<close> is a list of 8-bit words. The conversion \<open>[]byte(s)\<close> keeps every byte.
\<close>

type_synonym byte = "8 word"

definition bytes_of_string :: "string \<Rightarrow> byte list" where
  "bytes_of_string s = map of_char s"

text \<open>\<open>encoding/hex\<close>: two lower-case digits per byte, high nibble first.\<close>

definition hextable :: string where
  "hextable = ''0123456789abcdef''"

fun hex_EncodeToString :: "byte list \<Rightarrow> string" where
  "hex_EncodeToString [] = []"
| "hex_EncodeToString (v # src) =
     hextable ! unat (drop_bit 4 v) # hextable ! unat (v AND 0x0f) # hex_EncodeToString src"

text \<open>
  \<open>strconv.FormatInt(i, 10)\<close>: the decimal digits of \<open>i\<close>, most significant first,
  with a leading minus sign for a negative number.
\<close>

function digits10 :: "nat \<Rightarrow> string" where
  "digits10 n =
     (if n < 10 then [''0123456789'' ! n]
      else digits10 (n div 10) @ [''0123456789'' ! (n mod 10)])"
  by pat_completeness auto
termination
  by (relation "measure id") auto

declare digits10.simps [simp del]

definition strconv_FormatInt10 :: "int \<Rightarrow> string" where
  "strconv_FormatInt10 i =
     (if i < 0 then CHR ''-'' # digits10 (nat (- i)) else digits10 (nat i))"

section \<open>util.go: token identifiers\<close>

text \<open>
  \<open>big.Int.SetString(s, base)\<close> for a base between 2 and 36 (the client passes 16):
  \<open>scanSign\<close> reads an optional \<open>+\<close> or \<open>-\<close> and fails on an empty input; the digit
  loop takes digits and letters while their value is below the base; at least one digit
  must have been read, and the whole input must have been consumed. On failure the
  library returns \<open>(nil, false)\<close>, on success the number and \<open>true\<close>; the result is
  modelled as an option, \<open>None\<close> being the nil pointer together with \<open>false\<close>.
\<close>

definition digit_value :: "char \<Rightarrow> nat option" where
  "digit_value ch =
     (let c = (of_char ch :: nat) in
      if 48 \<le> c \<and> c \<le> 57 then Some (c - 48)
      else if 97 \<le> c \<and> c \<le> 122 then Some (c - 97 + 10)
      else if 65 \<le> c \<and> c \<le> 90 then Some (c - 65 + 10)
      else None)"

text \<open>
  The digit loop of \<open>nat.scan\<close>: the accumulated value, the number of digits read and
  the unread rest of the input.
\<close>

fun scan_digits :: "nat \<Rightarrow> nat \<Rightarrow> nat \<Rightarrow> string \<Rightarrow> nat \<times> nat \<times> string" where
  "scan_digits b acc count [] = (acc, count, [])"
| "scan_digits b acc count (ch # r) =
     (case digit_value ch of
        None \<Rightarrow> (acc, count, ch # r)
      | Some d1 \<Rightarrow>
          if d1 \<ge> b then (acc, count, ch # r)
          else scan_digits b (acc * b + d1) (Suc count) r)"

definition scanSign :: "string \<Rightarrow> (bool \<times> string) option" where
  "scanSign s =
     (case s of
        [] \<Rightarrow> None
      | ch # r \<Rightarrow>
          if ch = CHR ''-'' then Some (True, r)
          else if ch = CHR ''+'' then Some (False, r)
          else Some (False, ch # r))"

definition big_SetString :: "string \<Rightarrow> nat \<Rightarrow> int option" where
  "big_SetString s base =
     (case scanSign s of
        None \<Rightarrow> None
      | Some (neg, r) \<Rightarrow>
          (case scan_digits base 0 0 r of
             (abs_val, count, rest) \<Rightarrow>
               if count = 0 then None
               else if rest \<noteq> [] then None
               else Some (if abs_val > 0 \<and> neg then - int abs_val else int abs_val)))"

text \<open>
  \<open>TokenID\<close> is \<open>*big.Int\<close>: \<open>None\<close> is the nil pointer. \<open>GetTokenID\<close> drops the
  boolean of \<open>SetString\<close> and returns the pointer as it is; it has no error result.
\<close>

type_synonym TokenID = "int option"

definition GetTokenID :: "string \<Rightarrow> TokenID" where
  "GetTokenID token = big_SetString token 16"

text \<open>
  What a base-16 numeral is, said independently of the scanner: an optional sign
  followed by one or more hexadecimal digits of either case, and nothing else.
\<close>

definition is_hex_digit :: "char \<Rightarrow> bool" where
  "is_hex_digit c = (c \<in> set ''0123456789abcdefABCDEF'')"

definition base16_numeral :: "string \<Rightarrow> bool" where
  "base16_numeral s =
     (let ds = (case s of
                  [] \<Rightarrow> []
                | c # r \<Rightarrow> if c = CHR ''-'' \<or> c = CHR ''+'' then r else s)
      in ds \<noteq> [] \<and> list_all is_hex_digit ds)"

section \<open>client.go: data model\<close>

record Config =
  BizID :: string
  Endpoint :: string
  TenantID :: string
  AccessID :: string
  AccessKey :: string
  Account :: string
  MyKmsKeyID :: string

definition CHAIN_CALL_FOR_BIZ :: string where
  "CHAIN_CALL_FOR_BIZ = ''/api/contract/chainCallForBiz''"

definition CHAIN_CALL :: string where
  "CHAIN_CALL = ''/api/contract/chainCall''"

definition SHAKE_HAND :: string where
  "SHAKE_HAND = ''/api/contract/shakeHand''"

text \<open>
  \<open>X\<close> is \<open>map[string]interface{}\<close>. The values a caller can put into it are Go values
  of any type; \<open>VFunc\<close> stands for the kinds \<open>encoding/json\<close> cannot encode.
\<close>

datatype gvalue =
    VString string
  | VInt int
  | VBool bool
  | VNil
  | VSlice "gvalue list"
  | VMap "(string \<times> gvalue) list"
  | VFunc

type_synonym X = "string \<rightharpoonup> gvalue"

text \<open>
  A \<open>ChainCallOption\<close> is a function that mutates the map it is given; mutation of the
  shared map is the returned map. A caller can write options of its own, so an option is
  any such function; \<open>WithParam\<close> is the one the package provides.
\<close>

type_synonym ChainCallOption = "X \<Rightarrow> X"

definition WithParam :: "string \<Rightarrow> gvalue \<Rightarrow> ChainCallOption" where
  "WithParam k v = (\<lambda>params. params(k \<mapsto> v))"

datatype ctx_error = Canceled | DeadlineExceeded

text \<open>
  Go errors: \<open>Errorf\<close> is an error built by \<open>fmt.Errorf\<close> in this package and carries
  its formatted message, \<open>ctx_Err\<close> is the value of \<open>ctx.Err()\<close>, and \<open>lib_error\<close> is
  an error returned by a library call (signing, encoding, request construction,
  transport, reading the body).
\<close>

datatype error =
    Errorf string
  | ctx_Err ctx_error
  | lib_error string

fun Error :: "error \<Rightarrow> string" where
  "Error (Errorf msg) = msg"
| "Error (ctx_Err Canceled) = ''context canceled''"
| "Error (ctx_Err DeadlineExceeded) = ''context deadline exceeded''"
| "Error (lib_error msg) = msg"

datatype crypto_Hash = MD5 | SHA1 | SHA224 | SHA256 | SHA384 | SHA512

fun Hash_String :: "crypto_Hash \<Rightarrow> string" where
  "Hash_String MD5 = ''MD5''"
| "Hash_String SHA1 = ''SHA-1''"
| "Hash_String SHA224 = ''SHA-224''"
| "Hash_String SHA256 = ''SHA-256''"
| "Hash_String SHA384 = ''SHA-384''"
| "Hash_String SHA512 = ''SHA-512''"

datatype rsa_PrivateKey = rsa_PrivateKey (modulus: nat) (exponent: nat)

datatype PrivateKey = PrivateKey (rsa_key: rsa_PrivateKey)

text \<open>
  A context is its cancellation state over time: at each moment it is live (\<open>None\<close>) or
  done with an error. Time is counted in transport round trips started so far. A nil
  context is a value of its own.
\<close>

datatype Context = NilContext | Context "nat \<Rightarrow> ctx_error option"

record Request =
  Method :: string
  URL :: string
  Header :: "string \<rightharpoonup> string"
  Body :: string

text \<open>
  A response is what \<open>ioutil.ReadAll(resp.Body)\<close> gives for it: the bytes of the body or
  a read error.
\<close>

datatype Response = Response (ReadAll: "error + string")

section \<open>The response document as gjson sees it\<close>

text \<open>
  Modelled from the spec: the decoder is the third-party package gjson, whose code is
  not among the sources. Section 4.4 of the specification says what the client extracts:
  \<open>success\<close> as a boolean that is false when absent, \<open>code\<close> and \<open>data\<close> as strings
  that are empty when absent, an object or a number being taken by its text. The
  definitions below follow that and the package's documented projections
  (\<open>Result.Bool\<close>, \<open>Result.String\<close>): \<open>Absent\<close> is the result of a path that matches
  nothing; a number keeps its raw text and its value, an object and an array their raw
  text. \<open>gjson_Get\<close> is the lookup of a plain key (no path operators), which is all the
  client asks for; the first field of that name answers. A string reads as a boolean
  through \<open>strconv.ParseBool\<close>, as in the current releases of the package; no property
  below depends on how a string reads.
\<close>

datatype json =
    Absent
  | JNull
  | JFalse
  | JTrue
  | JNumber string rat
  | JString string
  | JObject string "(string \<times> json) list"
  | JArray string

fun gjson_Get :: "json \<Rightarrow> string \<Rightarrow> json" where
  "gjson_Get (JObject raw members) path =
     (case map_of members path of Some v \<Rightarrow> v | None \<Rightarrow> Absent)"
| "gjson_Get _ path = Absent"

definition ascii_lower :: "char \<Rightarrow> char" where
  "ascii_lower c =
     (let n = (of_char c :: nat) in if 65 \<le> n \<and> n \<le> 90 then char_of (n + 32) else c)"

text \<open>
  \<open>strconv.ParseBool(strings.ToLower(s))\<close> with its error dropped: of the lower-case
  strings only \<open>1\<close>, \<open>t\<close> and \<open>true\<close> are true.
\<close>

definition ParseBool_lower :: "string \<Rightarrow> bool" where
  "ParseBool_lower s = (let l = map ascii_lower s in l = ''1'' \<or> l = ''t'' \<or> l = ''true'')"

fun Result_Bool :: "json \<Rightarrow> bool" where
  "Result_Bool JTrue = True"
| "Result_Bool (JString s) = ParseBool_lower s"
| "Result_Bool (JNumber raw num) = (num \<noteq> 0)"
| "Result_Bool _ = False"

text \<open>
  The raw text of a number is returned when it is an optional minus sign followed by
  decimal digits only; any other number is printed again by \<open>strconv.FormatFloat\<close>.
\<close>

definition is_digit :: "char \<Rightarrow> bool" where
  "is_digit c = (let n = (of_char c :: nat) in 48 \<le> n \<and> n \<le> 57)"

definition raw_is_integer :: "string \<Rightarrow> bool" where
  "raw_is_integer raw =
     (raw \<noteq> [] \<and>
      list_all is_digit (case raw of c # r \<Rightarrow> if c = CHR ''-'' then r else raw | [] \<Rightarrow> []))"

fun Result_String :: "(rat \<Rightarrow> string) \<Rightarrow> json \<Rightarrow> string" where
  "Result_String fmt JFalse = ''false''"
| "Result_String fmt JTrue = ''true''"
| "Result_String fmt (JNumber raw num) = (if raw_is_integer raw then raw else fmt num)"
| "Result_String fmt (JString s) = s"
| "Result_String fmt (JObject raw members) = raw"
| "Result_String fmt (JArray raw) = raw"
| "Result_String fmt _ = []"

section \<open>Libraries and the outside world\<close>

text \<open>
  The library functions whose results the client only passes on are parameters: whether
  a digest is linked into the binary, the digest itself, the JSON encoder, the URL
  parser behind \<open>http.NewRequestWithContext\<close> (\<open>Some\<close> is its error), the parser of
  gjson and the float printer.
\<close>

record libs =
  Hash_Available :: "crypto_Hash \<Rightarrow> bool"
  Hash_Sum :: "crypto_Hash \<Rightarrow> byte list \<Rightarrow> byte list"
  json_Marshal :: "X \<Rightarrow> error + string"
  url_Parse :: "string \<Rightarrow> error option"
  gjson_ParseBytes :: "string \<Rightarrow> json"
  strconv_FormatFloat :: "rat \<Rightarrow> string"

text \<open>
  The world holds what changes from call to call. Each source of outside values is a
  sequence whose element 0 is the next value, and using a value shifts the sequence: the
  clock readings of \<open>time.Now().UnixMilli()\<close>, the outcomes of the signing primitive
  (which draws on \<open>rand.Reader\<close>), the random bytes handed to the UUID generator, and the
  outcomes of the round trips of the HTTP client \<open>c.cli\<close>. \<open>sent\<close> is the list of the
  requests handed to the HTTP client so far, oldest first.
\<close>

record world =
  time_Now :: "nat \<Rightarrow> 64 word"
  rsa_SignPKCS1v15 :: "nat \<Rightarrow> rsa_PrivateKey \<Rightarrow> crypto_Hash \<Rightarrow> byte list \<Rightarrow> error + byte list"
  rand_Reader :: "nat \<Rightarrow> byte"
  http_Do :: "nat \<Rightarrow> Request \<Rightarrow> error + Response"
  sent :: "Request list"

definition UnixMilli :: "world \<Rightarrow> 64 word \<times> world" where
  "UnixMilli w = (time_Now w 0, w\<lparr>time_Now := \<lambda>n. time_Now w (Suc n)\<rparr>)"

definition cli_Do :: "Request \<Rightarrow> world \<Rightarrow> (error + Response) \<times> world" where
  "cli_Do req w =
     (http_Do w 0 req, w\<lparr>http_Do := \<lambda>n. http_Do w (Suc n), sent := sent w @ [req]\<rparr>)"

text \<open>
  \<open>ctx.Done()\<close> polled without blocking, as the \<open>select\<close> with a \<open>default\<close> branch does:
  the state of the context now. The client never polls a nil context, because the
  request constructor has refused it before.
\<close>

fun ctx_Done :: "Context \<Rightarrow> world \<Rightarrow> ctx_error option" where
  "ctx_Done NilContext w = None"
| "ctx_Done (Context state) w = state (length (sent w))"

definition http_NewRequestWithContext ::
  "libs \<Rightarrow> Context \<Rightarrow> string \<Rightarrow> string \<Rightarrow> string \<Rightarrow> error + Request" where
  "http_NewRequestWithContext L ctx method url body =
     (case ctx of
        NilContext \<Rightarrow> Inl (lib_error ''net/http: nil Context'')
      | Context state \<Rightarrow>
          (case url_Parse L url of
             Some err \<Rightarrow> Inl err
           | None \<Rightarrow> Inr \<lparr>Method = method, URL = url, Header = Map.empty, Body = body\<rparr>))"

text \<open>
  Modelled from the spec: the order identifier is made by the third-party package
  google/uuid (\<open>uuid.New().String()\<close>), whose code is not among the sources. The
  specification asks for a freshly generated version-4 random UUID printed as a
  36-character string; the definitions follow RFC 4122 as that package implements it:
  sixteen bytes from the random source, then the version nibble set to 4 and the variant
  bits to binary 10; \<open>String\<close> prints the bytes in groups of 4, 2, 2, 2 and 6, in
  hexadecimal, separated by dashes. The random source always delivers its bytes.
\<close>

definition uuid_New :: "world \<Rightarrow> byte list \<times> world" where
  "uuid_New w =
     (let u = map (rand_Reader w) [0..<16];
          u = u[6 := (u ! 6 AND 0x0f) OR 0x40];
          u = u[8 := (u ! 8 AND 0x3f) OR 0x80]
      in (u, w\<lparr>rand_Reader := \<lambda>n. rand_Reader w (n + 16)\<rparr>))"

definition uuid_String :: "byte list \<Rightarrow> string" where
  "uuid_String u =
     hex_EncodeToString (take 4 u) @ ''-'' @
     hex_EncodeToString (take 2 (drop 4 u)) @ ''-'' @
     hex_EncodeToString (take 2 (drop 6 u)) @ ''-'' @
     hex_EncodeToString (take 2 (drop 8 u)) @ ''-'' @
     hex_EncodeToString (drop 10 u)"

section \<open>util.go: signing\<close>

definition Sign ::
  "libs \<Rightarrow> PrivateKey \<Rightarrow> crypto_Hash \<Rightarrow> byte list \<Rightarrow> world \<Rightarrow> (error + byte list) \<times> world" where
  "Sign L pk hash data w =
     (if \<not> Hash_Available L hash then
        (Inl (Errorf (''crypto: requested hash function ('' @ Hash_String hash @
                      '') is unavailable'')), w)
      else
        let h = Hash_Sum L hash data;
            w' = w\<lparr>rsa_SignPKCS1v15 := \<lambda>n. rsa_SignPKCS1v15 w (Suc n)\<rparr>
        in (case rsa_SignPKCS1v15 w 0 (rsa_key pk) hash h of
              Inl err \<Rightarrow> (Inl err, w')
            | Inr signature \<Rightarrow> (Inr signature, w')))"

section \<open>client.go: the calls\<close>

text \<open>
  The client holds its configuration and its key; the behaviour of its HTTP client
  \<open>cli\<close> is the \<open>http_Do\<close> of the world. A Go result \<open>("", err)\<close> is \<open>Inl err\<close>, a
  result \<open>(s, nil)\<close> is \<open>Inr s\<close>. An option is a function that returns; a nil
  option, which would panic in the loop, is not a value of the type.

  \<open>do\<close> follows the revision of the client whose \<open>do\<close> is complete in the sources: it
  builds the request itself and polls the context after a failed round trip. It does not
  look at the status code of the response, and closing the body has no effect on what it
  returns. The other revision among the sources hands the request to an \<open>HTTPClient\<close>
  wrapper whose code is not among them, and begins the error message with \<open>Err\<close>
  instead of \<open>antchain:\<close>; its callers are the same.
\<close>

record client =
  cfg :: Config
  key :: PrivateKey

definition do ::
  "libs \<Rightarrow> client \<Rightarrow> Context \<Rightarrow> string \<Rightarrow> X \<Rightarrow> world \<Rightarrow> (error + string) \<times> world" where
  "do L c ctx reqURL params w =
     (case json_Marshal L params of
        Inl err \<Rightarrow> (Inl err, w)
      | Inr body \<Rightarrow>
          (case http_NewRequestWithContext L ctx ''POST'' reqURL body of
             Inl err \<Rightarrow> (Inl err, w)
           | Inr req0 \<Rightarrow>
               let req = req0\<lparr>Header :=
                           (Header req0)(''Content-Type'' \<mapsto> ''application/json; charset=utf-8'')\<rparr>
               in (case cli_Do req w of
                     (Inl err, w1) \<Rightarrow>
                       (case ctx_Done ctx w1 of
                          Some ce \<Rightarrow> (Inl (ctx_Err ce), w1)
                        | None \<Rightarrow> (Inl err, w1))
                   | (Inr resp, w1) \<Rightarrow>
                       (case ReadAll resp of
                          Inl err \<Rightarrow> (Inl err, w1)
                        | Inr b \<Rightarrow>
                            let ret = gjson_ParseBytes L b in
                            if \<not> Result_Bool (gjson_Get ret ''success'') then
                              (Inl (Errorf (''antchain: '' @
                                     Result_String (strconv_FormatFloat L) (gjson_Get ret ''code'') @
                                     '' | '' @
                                     Result_String (strconv_FormatFloat L) (gjson_Get ret ''data''))),
                               w1)
                            else
                              (Inr (Result_String (strconv_FormatFloat L) (gjson_Get ret ''data'')),
                               w1)))))"

definition shakehand ::
  "libs \<Rightarrow> client \<Rightarrow> Context \<Rightarrow> world \<Rightarrow> (error + string) \<times> world" where
  "shakehand L c ctx w =
     (case UnixMilli w of
        (t, w1) \<Rightarrow>
          let timeStr = strconv_FormatInt10 (sint t) in
          (case Sign L (key c) SHA256 (bytes_of_string (AccessID (cfg c) @ timeStr)) w1 of
             (Inl err, w2) \<Rightarrow> (Inl err, w2)
           | (Inr sign, w2) \<Rightarrow>
               let params = [''accessId'' \<mapsto> VString (AccessID (cfg c)),
                             ''time'' \<mapsto> VString timeStr,
                             ''secret'' \<mapsto> VString (hex_EncodeToString sign)]
               in do L c ctx (Endpoint (cfg c) @ SHAKE_HAND) params w2))"

text \<open>The loop \<open>for _, f := range options { f(params) }\<close>.\<close>

fun apply_options :: "ChainCallOption list \<Rightarrow> X \<Rightarrow> X" where
  "apply_options [] params = params"
| "apply_options (f # options) params = apply_options options (f params)"

definition chainCall ::
  "libs \<Rightarrow> client \<Rightarrow> Context \<Rightarrow> string \<Rightarrow> ChainCallOption list \<Rightarrow> world
     \<Rightarrow> (error + string) \<times> world" where
  "chainCall L c ctx method options w =
     (case shakehand L c ctx w of
        (Inl err, w1) \<Rightarrow> (Inl err, w1)
      | (Inr token, w1) \<Rightarrow>
          let params = apply_options options Map.empty;
              params = params(''bizid'' \<mapsto> VString (BizID (cfg c)));
              params = params(''accessId'' \<mapsto> VString (AccessID (cfg c)));
              params = params(''method'' \<mapsto> VString method);
              params = params(''token'' \<mapsto> VString token)
          in do L c ctx (Endpoint (cfg c) @ CHAIN_CALL) params w1)"

definition chainCallForBiz ::
  "libs \<Rightarrow> client \<Rightarrow> Context \<Rightarrow> string \<Rightarrow> ChainCallOption list \<Rightarrow> world
     \<Rightarrow> (error + string) \<times> world" where
  "chainCallForBiz L c ctx method options w =
     (case shakehand L c ctx w of
        (Inl err, w1) \<Rightarrow> (Inl err, w1)
      | (Inr token, w1) \<Rightarrow>
          let params = apply_options options Map.empty in
          (case uuid_New w1 of
             (u, w2) \<Rightarrow>
               let params = params(''orderId'' \<mapsto> VString (uuid_String u));
                   params = params(''bizid'' \<mapsto> VString (BizID (cfg c)));
                   params = params(''account'' \<mapsto> VString (Account (cfg c)));
                   params = params(''mykmsKeyId'' \<mapsto> VString (MyKmsKeyID (cfg c)));
                   params = params(''method'' \<mapsto> VString method);
                   params = params(''accessId'' \<mapsto> VString (AccessID (cfg c)));
                   params = params(''tenantid'' \<mapsto> VString (TenantID (cfg c)));
                   params = params(''token'' \<mapsto> VString token)
               in do L c ctx (Endpoint (cfg c) @ CHAIN_CALL_FOR_BIZ) params w2))"

section \<open>Notions the properties are stated with\<close>

text \<open>The request \<open>do\<close> hands to the HTTP client for a URL and an encoded body.\<close>

definition post_request :: "string \<Rightarrow> string \<Rightarrow> Request" where
  "post_request url body =
     \<lparr>Method = ''POST'', URL = url,
      Header = [''Content-Type'' \<mapsto> ''application/json; charset=utf-8''], Body = body\<rparr>"

text \<open>
  The mapping \<open>chainCall\<close> has assembled when it calls \<open>do\<close>, for the token its
  handshake returned; and that of \<open>chainCallForBiz\<close>, for the token and the order
  identifier it has generated.
\<close>

definition chainCall_params :: "Config \<Rightarrow> string \<Rightarrow> string \<Rightarrow> ChainCallOption list \<Rightarrow> X" where
  "chainCall_params cf method token options =
     (apply_options options Map.empty)
       (''bizid'' \<mapsto> VString (BizID cf),
        ''accessId'' \<mapsto> VString (AccessID cf),
        ''method'' \<mapsto> VString method,
        ''token'' \<mapsto> VString token)"

definition chainCallForBiz_params ::
  "Config \<Rightarrow> string \<Rightarrow> string \<Rightarrow> string \<Rightarrow> ChainCallOption list \<Rightarrow> X" where
  "chainCallForBiz_params cf method token orderId options =
     (apply_options options Map.empty)
       (''orderId'' \<mapsto> VString orderId,
        ''bizid'' \<mapsto> VString (BizID cf),
        ''account'' \<mapsto> VString (Account cf),
        ''mykmsKeyId'' \<mapsto> VString (MyKmsKeyID cf),
        ''method'' \<mapsto> VString method,
        ''accessId'' \<mapsto> VString (AccessID cf),
        ''tenantid'' \<mapsto> VString (TenantID cf),
        ''token'' \<mapsto> VString token)"

text \<open>
  The answer of the HTTP client to the last request sent between the worlds \<open>w\<close> and
  \<open>w'\<close> (meaningful when a request was sent between them).
\<close>

definition last_response :: "world \<Rightarrow> world \<Rightarrow> error + Response" where
  "last_response w w' = http_Do w (length (sent w') - length (sent w) - 1) (last (sent w'))"

text \<open>
  What \<open>do\<close> returns for an answer of the HTTP client, in the world \<open>w1\<close> in which the
  answer arrived: its lines after \<open>c.cli.Do(req)\<close>.
\<close>

definition outcome :: "libs \<Rightarrow> Context \<Rightarrow> world \<Rightarrow> error + Response \<Rightarrow> error + string" where
  "outcome L ctx w1 answer =
     (case answer of
        Inl err \<Rightarrow> (case ctx_Done ctx w1 of Some ce \<Rightarrow> Inl (ctx_Err ce) | None \<Rightarrow> Inl err)
      | Inr resp \<Rightarrow>
          (case ReadAll resp of
             Inl err \<Rightarrow> Inl err
           | Inr b \<Rightarrow>
               let ret = gjson_ParseBytes L b in
               if \<not> Result_Bool (gjson_Get ret ''success'') then
                 Inl (Errorf (''antchain: '' @
                        Result_String (strconv_FormatFloat L) (gjson_Get ret ''code'') @
                        '' | '' @
                        Result_String (strconv_FormatFloat L) (gjson_Get ret ''data'')))
               else Inr (Result_String (strconv_FormatFloat L) (gjson_Get ret ''data''))))"


section \<open>An example deployment\<close>

text \<open>
  A configuration, toy libraries and a world, on which the calls can be run. The toy
  encoder prints the token of a mapping and its order identifier, or its secret when it
  has no token; the toy
  parser knows seven response bodies; the signing primitive appends the number of the
  signing operation to the digest, and the digest keeps two bytes. The HTTP client
  answers its first request with the token \<open>tok1\<close>, the second with the payload
  \<open>deadbeef\<close>, the third with the token \<open>tok2\<close> and every later one with a failure
  envelope.
\<close>

definition cfg0 :: Config where
  "cfg0 = \<lparr>BizID = ''a00e36c5'', Endpoint = ''https://rest.baas.alipay.com'',
           TenantID = ''T1'', AccessID = ''acc'', AccessKey = ''key.pem'',
           Account = ''alice'', MyKmsKeyID = ''kms1''\<rparr>"

definition c0 :: client where
  "c0 = \<lparr>cfg = cfg0, key = PrivateKey (rsa_PrivateKey 3233 2753)\<rparr>"

definition body_ok :: "string \<Rightarrow> string" where
  \<open>body_ok d = ''{"success":true,"data":"'' @ d @ ''"}''\<close>

definition body_fail :: string where
  \<open>body_fail = ''{"success":false,"code":"E1","data":"boom"}''\<close>

definition body_no_success :: string where
  \<open>body_no_success = ''{"code":"E7","data":"x"}''\<close>

definition body_number :: string where
  \<open>body_number = ''{"success":true,"data":42}''\<close>

definition body_object :: string where
  \<open>body_object = ''{"success":true,"data":{"a":1}}''\<close>

definition parse0 :: "string \<Rightarrow> json" where
  \<open>parse0 b =
     (if b = body_ok ''tok1'' then
        JObject b [(''success'', JTrue), (''data'', JString ''tok1'')]
      else if b = body_ok ''tok2'' then
        JObject b [(''success'', JTrue), (''data'', JString ''tok2'')]
      else if b = body_ok ''deadbeef'' then
        JObject b [(''success'', JTrue), (''data'', JString ''deadbeef'')]
      else if b = body_fail then
        JObject b [(''success'', JFalse), (''code'', JString ''E1''), (''data'', JString ''boom'')]
      else if b = body_no_success then
        JObject b [(''code'', JString ''E7''), (''data'', JString ''x'')]
      else if b = body_number then
        JObject b [(''success'', JTrue), (''data'', JNumber ''42'' 42)]
      else if b = body_object then
        JObject b [(''success'', JTrue),
                   (''data'', JObject ''{"a":1}'' [(''a'', JNumber ''1'' 1)])]
      else JNull)\<close>

definition marshal0 :: "X \<Rightarrow> error + string" where
  "marshal0 p =
     (case p ''token'' of
        Some (VString t) \<Rightarrow>
          (case p ''orderId'' of
             Some (VString i) \<Rightarrow> Inr (''token='' @ t @ ''&orderId='' @ i)
           | _ \<Rightarrow> Inr (''token='' @ t))
      | Some _ \<Rightarrow> Inl (lib_error ''json: unsupported type'')
      | None \<Rightarrow>
          (case p ''secret'' of
             Some (VString s) \<Rightarrow> Inr (''secret='' @ s)
           | _ \<Rightarrow> Inl (lib_error ''json: unsupported type'')))"

definition L0 :: libs where
  "L0 = \<lparr>Hash_Available = (\<lambda>h. True), Hash_Sum = (\<lambda>h d. take 2 d),
          json_Marshal = marshal0, url_Parse = (\<lambda>u. None),
          gjson_ParseBytes = parse0, strconv_FormatFloat = (\<lambda>q. ''0.5'')\<rparr>"

definition answers0 :: "nat \<Rightarrow> Request \<Rightarrow> error + Response" where
  "answers0 n req =
     Inr (Response (Inr
       (if n = 0 then body_ok ''tok1''
        else if n = 1 then body_ok ''deadbeef''
        else if n = 2 then body_ok ''tok2''
        else body_fail)))"

definition w0 :: world where
  "w0 = \<lparr>time_Now = (\<lambda>n. 1700000000000 + of_nat n),
          rsa_SignPKCS1v15 = (\<lambda>n k h d. Inr (d @ [of_nat n])),
          rand_Reader = (\<lambda>n. of_nat (17 * n + 3)),
          http_Do = answers0,
          sent = []\<rparr>"

definition ctx0 :: Context where
  "ctx0 = Context (\<lambda>t. None)"

text \<open>
  The same world with an HTTP client that answers every request with the body \<open>b\<close>;
  one that answers the first request with the token \<open>tok1\<close> and every later one
  with \<open>b\<close>; one whose every round trip fails; one whose round trips fail after the
  first; a context that is cancelled from the start, and one that is cancelled after the
  first round trip.
\<close>

definition w_answer :: "string \<Rightarrow> world" where
  "w_answer b = w0\<lparr>http_Do := \<lambda>n req. Inr (Response (Inr b))\<rparr>"






text \<open>
  The handshake request of the example and the world it leaves behind, when the HTTP
  client answers by \<open>h\<close>.
\<close>

definition hs_request0 :: Request where
  "hs_request0 =
     post_request ''https://rest.baas.alipay.com/api/contract/shakeHand'' ''secret=616300''"

definition after_handshake :: "(nat \<Rightarrow> Request \<Rightarrow> error + Response) \<Rightarrow> world" where
  "after_handshake h =
     \<lparr>time_Now = (\<lambda>n. 1700000000000 + of_nat (Suc n)),
      rsa_SignPKCS1v15 = (\<lambda>n k hh d. Inr (d @ [of_nat (Suc n)])),
      rand_Reader = (\<lambda>n. of_nat (17 * n + 3)),
      http_Do = (\<lambda>n. h (Suc n)),
      sent = [hs_request0]\<rparr>"

section \<open>Token identifiers: what an unparsable input gives\<close>

lemma is_hex_digit_ranges:
  "is_hex_digit ch \<longleftrightarrow>
     (let c = (of_char ch :: nat)
      in (48 \<le> c \<and> c \<le> 57) \<or> (97 \<le> c \<and> c \<le> 102) \<or> (65 \<le> c \<and> c \<le> 70))"
proof -
  have "is_hex_digit ch \<longleftrightarrow> (of_char ch :: nat) \<in> of_char ` set ''0123456789abcdefABCDEF''"
    unfolding is_hex_digit_def by (rule inj_image_mem_iff [symmetric]) (simp add: inj_def)
  also have "\<dots> \<longleftrightarrow>
     (let c = (of_char ch :: nat)
      in (48 \<le> c \<and> c \<le> 57) \<or> (97 \<le> c \<and> c \<le> 102) \<or> (65 \<le> c \<and> c \<le> 70))"
    by (simp add: Let_def) arith
  finally show ?thesis .
qed

lemma digit_value_hex: "(\<exists>d. digit_value ch = Some d \<and> d < 16) \<longleftrightarrow> is_hex_digit ch"
  unfolding is_hex_digit_ranges digit_value_def Let_def by auto

lemma scan_digits_16:
  "scan_digits 16 acc count r =
     (fst (scan_digits 16 acc count r),
      count + length (takeWhile is_hex_digit r),
      dropWhile is_hex_digit r)"
proof (induction r arbitrary: acc count)
  case Nil
  then show ?case by simp
next
  case (Cons ch r)
  show ?case
  proof (cases "is_hex_digit ch")
    case True
    then obtain d where d: "digit_value ch = Some d" "d < 16"
      using digit_value_hex by blast
    then show ?thesis
      using True Cons.IH [of "acc * 16 + d" "Suc count"] by simp
  next
    case False
    then have "\<not> (\<exists>d. digit_value ch = Some d \<and> d < 16)"
      using digit_value_hex by blast
    then show ?thesis
      using False by (auto split: option.splits)
  qed
qed

lemma GetTokenID_None_iff: "GetTokenID s = None \<longleftrightarrow> \<not> base16_numeral s"
proof -
  have key: "(case scan_digits 16 0 0 r of
                (a, count, rest) \<Rightarrow>
                  if count = 0 then None
                  else if rest \<noteq> [] then None
                  else Some (if a > 0 \<and> neg then - int a else int a)) = None
             \<longleftrightarrow> \<not> (r \<noteq> [] \<and> list_all is_hex_digit r)" for r neg
  proof -
    have "(length (takeWhile is_hex_digit r) \<noteq> 0 \<and> dropWhile is_hex_digit r = [])
            \<longleftrightarrow> (r \<noteq> [] \<and> list_all is_hex_digit r)"
      by (cases r) (auto simp: list_all_iff dropWhile_eq_Nil_conv)
    then show ?thesis
      by (subst scan_digits_16) (auto simp del: scan_digits.simps)
  qed
  show ?thesis
  proof (cases s)
    case Nil
    then show ?thesis
      by (simp add: GetTokenID_def big_SetString_def scanSign_def base16_numeral_def)
  next
    case (Cons c r)
    then show ?thesis
      using key [where r = r and neg = True] key [where r = r and neg = False]
        key [where r = "c # r" and neg = False]
      by (simp add: GetTokenID_def big_SetString_def scanSign_def base16_numeral_def Let_def
          del: scan_digits.simps)
  qed
qed

text \<open>
  C10. For every input string that is not a base-16 numeral (an optional sign followed
  by one or more hexadecimal digits), for example the empty string or a string with a
  character that is no hexadecimal digit, \<open>GetTokenID\<close> returns the nil \<open>TokenID\<close>.
  Its result type has no error component: the failure reported by the big-integer
  conversion is dropped.
\<close>

theorem GetTokenID_invalid_nil:
  assumes "\<not> base16_numeral token"
  shows "GetTokenID token = None"
  using assms GetTokenID_None_iff by blast

theorem GetTokenID_invalid_nil_witness:
  "\<not> base16_numeral [] \<and> GetTokenID [] = None \<and>
   \<not> base16_numeral ''12g4'' \<and> GetTokenID ''12g4'' = None"
  using GetTokenID_invalid_nil [of "[]"] GetTokenID_invalid_nil [of "''12g4''"]
  by (simp add: base16_numeral_def is_hex_digit_def)

section \<open>What a call sends and what it returns\<close>

lemma do_effect:
  assumes "do L c ctx url params w = (r, w')"
  shows "(isl r \<and> w' = w) \<or>
         (\<exists>body. json_Marshal L params = Inr body \<and>
            w' = w\<lparr>http_Do := \<lambda>n. http_Do w (Suc n), sent := sent w @ [post_request url body]\<rparr> \<and>
            r = outcome L ctx w' (http_Do w 0 (post_request url body)))"
proof (cases "json_Marshal L params")
  case (Inl err)
  then have "do L c ctx url params w = (Inl err, w)"
    by (simp add: do_def)
  with assms show ?thesis by auto
next
  case (Inr body)
  show ?thesis
  proof (cases "http_NewRequestWithContext L ctx ''POST'' url body")
    case (Inl err)
    then have "do L c ctx url params w = (Inl err, w)"
      using Inr by (simp add: do_def)
    with assms show ?thesis by auto
  next
    case req: (Inr req0)
    then have req0: "req0\<lparr>Header := (Header req0)(''Content-Type'' \<mapsto> ''application/json; charset=utf-8'')\<rparr>
        = post_request url body"
      by (auto simp: http_NewRequestWithContext_def post_request_def split: Context.splits option.splits)
    define w1 where "w1 = w\<lparr>http_Do := \<lambda>n. http_Do w (Suc n), sent := sent w @ [post_request url body]\<rparr>"
    have "do L c ctx url params w = (outcome L ctx w1 (http_Do w 0 (post_request url body)), w1)"
      using Inr req req0
      by (simp add: do_def cli_Do_def outcome_def w1_def Let_def split: sum.splits option.splits)
    with assms Inr show ?thesis by (auto simp: w1_def)
  qed
qed


lemma shakehand_effect:
  assumes "shakehand L c ctx w = (r, w')"
  shows "rand_Reader w' = rand_Reader w \<and>
         ((isl r \<and> sent w' = sent w \<and> http_Do w' = http_Do w) \<or>
          (\<exists>body. sent w' = sent w @ [post_request (Endpoint (cfg c) @ SHAKE_HAND) body] \<and>
             http_Do w' = (\<lambda>n. http_Do w (Suc n)) \<and>
             r = outcome L ctx w' (http_Do w 0 (post_request (Endpoint (cfg c) @ SHAKE_HAND) body))))"
proof -
  obtain t w1 where t: "UnixMilli w = (t, w1)"
    by (cases "UnixMilli w")
  define timeStr where "timeStr = strconv_FormatInt10 (sint t)"
  obtain sr w2 where sg:
    "Sign L (key c) SHA256 (bytes_of_string (AccessID (cfg c) @ timeStr)) w1 = (sr, w2)"
    by (cases "Sign L (key c) SHA256 (bytes_of_string (AccessID (cfg c) @ timeStr)) w1")
  have w2: "sent w2 = sent w" "http_Do w2 = http_Do w" "rand_Reader w2 = rand_Reader w"
    using t sg by (auto simp: UnixMilli_def Sign_def Let_def split: if_splits sum.splits)
  show ?thesis
  proof (cases sr)
    case (Inl err)
    then have "shakehand L c ctx w = (Inl err, w2)"
      using t sg by (simp add: shakehand_def timeStr_def)
    with assms w2 show ?thesis by auto
  next
    case (Inr sign)
    define params where "params = [''accessId'' \<mapsto> VString (AccessID (cfg c)),
        ''time'' \<mapsto> VString timeStr, ''secret'' \<mapsto> VString (hex_EncodeToString sign)]"
    have "shakehand L c ctx w = do L c ctx (Endpoint (cfg c) @ SHAKE_HAND) params w2"
      using t sg Inr by (simp add: shakehand_def timeStr_def params_def)
    with assms have "do L c ctx (Endpoint (cfg c) @ SHAKE_HAND) params w2 = (r, w')"
      by simp
    from do_effect [OF this] w2 show ?thesis
      by auto
  qed
qed

lemma do_last:
  assumes "do L c ctx url params w = (r, w')" and "sent w' \<noteq> sent w"
  shows "r = outcome L ctx w' (last_response w w')"
  using do_effect [OF assms(1)] assms(2) by (auto simp: last_response_def)

lemma shakehand_last:
  assumes "shakehand L c ctx w = (r, w')" and "sent w' \<noteq> sent w"
  shows "r = outcome L ctx w' (last_response w w')"
  using shakehand_effect [OF assms(1)] assms(2) by (auto simp: last_response_def)

lemma chainCall_unfold:
  "chainCall L c ctx method options w =
     (case shakehand L c ctx w of
        (Inl err, w1) \<Rightarrow> (Inl err, w1)
      | (Inr token, w1) \<Rightarrow>
          do L c ctx (Endpoint (cfg c) @ CHAIN_CALL)
            (chainCall_params (cfg c) method token options) w1)"
  by (simp add: chainCall_def chainCall_params_def Let_def split: prod.splits sum.splits)

lemma chainCallForBiz_unfold:
  "chainCallForBiz L c ctx method options w =
     (case shakehand L c ctx w of
        (Inl err, w1) \<Rightarrow> (Inl err, w1)
      | (Inr token, w1) \<Rightarrow>
          (case uuid_New w1 of
             (u, w2) \<Rightarrow>
               do L c ctx (Endpoint (cfg c) @ CHAIN_CALL_FOR_BIZ)
                 (chainCallForBiz_params (cfg c) method token (uuid_String u) options) w2))"
  by (simp add: chainCallForBiz_def chainCallForBiz_params_def Let_def
      split: prod.splits sum.splits)

lemma uuid_New_effect:
  assumes "uuid_New w = (u, w')"
  shows "sent w' = sent w" "http_Do w' = http_Do w"
    "rand_Reader w' = (\<lambda>n. rand_Reader w (n + 16))"
  using assms by (auto simp: uuid_New_def Let_def)

lemma outcome_sent_eq:
  "sent w1 = sent w2 \<Longrightarrow> outcome L ctx w1 a = outcome L ctx w2 a"
  by (cases ctx) (auto simp: outcome_def split: sum.splits)

text \<open>
  The calls of two round trips: a handshake, an intermediate step that sends nothing, and
  \<open>do\<close> with a mapping that depends on the token.
\<close>

lemma two_step_last:
  assumes hs: "shakehand L c ctx w = (r1, w1)"
    and mid: "sent w2 = sent w1" "http_Do w2 = http_Do w1"
    and call: "(case r1 of Inl err \<Rightarrow> (Inl err, w1) | Inr token \<Rightarrow> do L c ctx url (P token) w2) = (r, w')"
    and sent: "sent w' \<noteq> sent w"
    and fail: "isl (outcome L ctx w' (last_response w w')) \<or> length (sent w') = length (sent w) + 2"
  shows "r = outcome L ctx w' (last_response w w')"
proof (cases r1)
  case (Inl err)
  then have "r = r1" "w' = w1" using call by auto
  then show ?thesis using shakehand_last [OF hs] sent by simp
next
  case (Inr token)
  then have d: "do L c ctx url (P token) w2 = (r, w')"
    using call by simp
  from shakehand_effect [OF hs] Inr obtain hbody where
    h: "sent w1 = sent w @ [post_request (Endpoint (cfg c) @ SHAKE_HAND) hbody]"
       "http_Do w1 = (\<lambda>n. http_Do w (Suc n))"
       "r1 = outcome L ctx w1 (http_Do w 0 (post_request (Endpoint (cfg c) @ SHAKE_HAND) hbody))"
    by auto
  from do_effect [OF d] show ?thesis
  proof
    assume a: "isl r \<and> w' = w2"
    then have "last_response w w' = http_Do w 0 (post_request (Endpoint (cfg c) @ SHAKE_HAND) hbody)"
      using h mid by (simp add: last_response_def)
    moreover have "outcome L ctx w' = outcome L ctx w1"
      using a mid by (auto intro: outcome_sent_eq)
    ultimately have "outcome L ctx w' (last_response w w') = r1"
      using h by simp
    with Inr fail a h mid show ?thesis by simp
  next
    assume "\<exists>body. json_Marshal L (P token) = Inr body \<and>
            w' = w2\<lparr>http_Do := \<lambda>n. http_Do w2 (Suc n), sent := sent w2 @ [post_request url body]\<rparr> \<and>
            r = outcome L ctx w' (http_Do w2 0 (post_request url body))"
    then obtain body where
      b: "w' = w2\<lparr>http_Do := \<lambda>n. http_Do w2 (Suc n), sent := sent w2 @ [post_request url body]\<rparr>"
         "r = outcome L ctx w' (http_Do w2 0 (post_request url body))"
      by auto
    have "last_response w w' = http_Do w2 0 (post_request url body)"
      using b(1) h mid by (simp add: last_response_def)
    with b show ?thesis by simp
  qed
qed

lemma chainCall_last:
  assumes "chainCall L c ctx method options w = (r, w')"
    and "sent w' \<noteq> sent w"
    and "isl (outcome L ctx w' (last_response w w')) \<or> length (sent w') = length (sent w) + 2"
  shows "r = outcome L ctx w' (last_response w w')"
proof -
  obtain r1 w1 where hs: "shakehand L c ctx w = (r1, w1)"
    by (cases "shakehand L c ctx w")
  have "(case r1 of Inl err \<Rightarrow> (Inl err, w1)
         | Inr token \<Rightarrow> do L c ctx (Endpoint (cfg c) @ CHAIN_CALL)
             (chainCall_params (cfg c) method token options) w1) = (r, w')"
    using assms(1) hs by (cases r1) (auto simp: chainCall_unfold)
  from two_step_last [OF hs refl refl this assms(2,3)] show ?thesis .
qed

lemma chainCallForBiz_last:
  assumes "chainCallForBiz L c ctx method options w = (r, w')"
    and "sent w' \<noteq> sent w"
    and "isl (outcome L ctx w' (last_response w w')) \<or> length (sent w') = length (sent w) + 2"
  shows "r = outcome L ctx w' (last_response w w')"
proof -
  obtain r1 w1 where hs: "shakehand L c ctx w = (r1, w1)"
    by (cases "shakehand L c ctx w")
  obtain u w2 where u: "uuid_New w1 = (u, w2)"
    by (cases "uuid_New w1")
  have "(case r1 of Inl err \<Rightarrow> (Inl err, w1)
         | Inr token \<Rightarrow> do L c ctx (Endpoint (cfg c) @ CHAIN_CALL_FOR_BIZ)
             (chainCallForBiz_params (cfg c) method token (uuid_String u) options) w2) = (r, w')"
    using assms(1) hs u by (cases r1) (auto simp: chainCallForBiz_unfold)
  from two_step_last [OF hs uuid_New_effect(1,2) [OF u] this assms(2,3)] show ?thesis .
qed

lemma call_outcome:
  assumes "sent w' \<noteq> sent w"
    and "isl (outcome L ctx w' (last_response w w'))"
  shows "(do L c ctx url params w = (r, w') \<longrightarrow> r = outcome L ctx w' (last_response w w')) \<and>
         (shakehand L c ctx w = (r, w') \<longrightarrow> r = outcome L ctx w' (last_response w w')) \<and>
         (chainCall L c ctx method options w = (r, w') \<longrightarrow>
            r = outcome L ctx w' (last_response w w')) \<and>
         (chainCallForBiz L c ctx method options w = (r, w') \<longrightarrow>
            r = outcome L ctx w' (last_response w w'))"
proof (intro conjI impI)
  assume "do L c ctx url params w = (r, w')"
  then show "r = outcome L ctx w' (last_response w w')"
    using assms(1) by (rule do_last)
next
  assume "shakehand L c ctx w = (r, w')"
  then show "r = outcome L ctx w' (last_response w w')"
    using assms(1) by (rule shakehand_last)
next
  assume "chainCall L c ctx method options w = (r, w')"
  then show "r = outcome L ctx w' (last_response w w')"
    using assms by (intro chainCall_last) auto
next
  assume "chainCallForBiz L c ctx method options w = (r, w')"
  then show "r = outcome L ctx w' (last_response w w')"
    using assms by (intro chainCallForBiz_last) auto
qed

section \<open>Hexadecimal encoding and order identifiers\<close>




lemma unat_high_nibble: "unat (drop_bit 4 (v :: byte)) = unat v div 16"
  by (simp add: drop_bit_eq_div unat_div)

lemma low_nibble_take_bit: "(v :: byte) AND 0x0f = take_bit 4 v"
proof -
  have "(mask 4 :: byte) = 0x0f"
    by (simp add: mask_eq_exp_minus_1)
  then show ?thesis
    by (simp add: take_bit_eq_mask)
qed

lemma unat_low_nibble: "unat ((v :: byte) AND 0x0f) = unat v mod 16"
  by (simp add: low_nibble_take_bit take_bit_eq_mod unat_mod)














lemma upt_16: "[0..<16] = [0,1,2,3,4,5,6,7,8,9,10,11,12,13,14,15::nat]"
  by (simp add: upt_rec)


lemma uuid_New_explicit:
  "fst (uuid_New w) =
     (let r = rand_Reader w in
      [r 0, r 1, r 2, r 3, r 4, r 5, (r 6 AND 0x0f) OR 0x40, r 7,
       (r 8 AND 0x3f) OR 0x80, r 9, r 10, r 11, r 12, r 13, r 14, r 15])"
  by (simp add: uuid_New_def Let_def upt_16)



lemma uuid_String_explicit:
  "uuid_String [b0, b1, b2, b3, b4, b5, b6, b7, b8, b9, b10, b11, b12, b13, b14, b15] =
     hex_EncodeToString [b0, b1, b2, b3] @ ''-'' @ hex_EncodeToString [b4, b5] @ ''-'' @
     hex_EncodeToString [b6, b7] @ ''-'' @ hex_EncodeToString [b8, b9] @ ''-'' @
     hex_EncodeToString [b10, b11, b12, b13, b14, b15]"
  by (simp add: uuid_String_def)





section \<open>The handshake request\<close>

lemma do_sends:
  assumes "json_Marshal L params = Inr body" and "ctx = Context state"
    and "url_Parse L url = None"
  shows "do L c ctx url params w =
     (outcome L ctx (w\<lparr>http_Do := \<lambda>n. http_Do w (Suc n), sent := sent w @ [post_request url body]\<rparr>)
        (http_Do w 0 (post_request url body)),
      w\<lparr>http_Do := \<lambda>n. http_Do w (Suc n), sent := sent w @ [post_request url body]\<rparr>)"
  using assms
  by (simp add: do_def http_NewRequestWithContext_def cli_Do_def outcome_def post_request_def
      Let_def split: sum.splits option.splits)

lemma shakehand_signed:
  assumes "UnixMilli w = (t, w1)"
    and "Sign L (key c) SHA256
           (bytes_of_string (AccessID (cfg c) @ strconv_FormatInt10 (sint t))) w1
         = (Inr signature, w2)"
  shows "shakehand L c ctx w =
     do L c ctx (Endpoint (cfg c) @ ''/api/contract/shakeHand'')
       [''accessId'' \<mapsto> VString (AccessID (cfg c)),
        ''time'' \<mapsto> VString (strconv_FormatInt10 (sint t)),
        ''secret'' \<mapsto> VString (hex_EncodeToString signature)] w2"
  using assms by (simp add: shakehand_def SHAKE_HAND_def)

lemma digits10_example: "digits10 1700000000000 = ''1700000000000''"
  by (simp add: digits10.simps)

text \<open>
  C1. For every configuration the handshake builds its request from the clock reading
  \<open>t\<close> it captures: the signature is \<open>Sign\<close> with SHA-256 of the access identifier
  followed, without a separator, by the decimal string of \<open>t\<close>; the parameter mapping
  is exactly \<open>accessId\<close>, \<open>time\<close> (that string) and \<open>secret\<close> (the signature in
  hexadecimal); and the encoding of that mapping is posted to the endpoint followed by
  \<open>/api/contract/shakeHand\<close>. The hypotheses say that the signature and the request
  could be made.
\<close>

theorem shakehand_request:
  assumes clock: "UnixMilli w = (t, w1)"
    and sig: "Sign L (key c) SHA256
                (bytes_of_string (AccessID (cfg c) @ strconv_FormatInt10 (sint t))) w1
              = (Inr signature, w2)"
    and enc: "json_Marshal L
                [''accessId'' \<mapsto> VString (AccessID (cfg c)),
                 ''time'' \<mapsto> VString (strconv_FormatInt10 (sint t)),
                 ''secret'' \<mapsto> VString (hex_EncodeToString signature)] = Inr body"
    and ctx: "ctx = Context state"
    and url: "url_Parse L (Endpoint (cfg c) @ ''/api/contract/shakeHand'') = None"
  shows "t = time_Now w 0 \<and>
         shakehand L c ctx w =
           do L c ctx (Endpoint (cfg c) @ ''/api/contract/shakeHand'')
             [''accessId'' \<mapsto> VString (AccessID (cfg c)),
              ''time'' \<mapsto> VString (strconv_FormatInt10 (sint t)),
              ''secret'' \<mapsto> VString (hex_EncodeToString signature)] w2 \<and>
         sent (snd (shakehand L c ctx w)) =
           sent w @ [post_request (Endpoint (cfg c) @ ''/api/contract/shakeHand'') body]"
proof -
  have t: "t = time_Now w 0"
    using clock by (auto simp: UnixMilli_def)
  have s: "sent w2 = sent w"
    using clock sig by (auto simp: UnixMilli_def Sign_def Let_def split: if_splits sum.splits)
  note eq = shakehand_signed [OF clock sig, of ctx]
  have "sent (snd (shakehand L c ctx w)) =
      sent w @ [post_request (Endpoint (cfg c) @ ''/api/contract/shakeHand'') body]"
    using s by (simp add: eq do_sends [OF enc ctx url])
  with t eq show ?thesis by simp
qed

theorem shakehand_request_witness:
  "sent (snd (shakehand L0 c0 ctx0 w0)) =
     [post_request ''https://rest.baas.alipay.com/api/contract/shakeHand'' ''secret=616300'']"
proof -
  define w1 where "w1 = w0\<lparr>time_Now := \<lambda>n. time_Now w0 (Suc n)\<rparr>"
  define w2 where "w2 = w1\<lparr>rsa_SignPKCS1v15 := \<lambda>n. rsa_SignPKCS1v15 w1 (Suc n)\<rparr>"
  have clock: "UnixMilli w0 = (1700000000000, w1)"
    by (simp add: UnixMilli_def w1_def) (simp add: w0_def)
  have ts: "strconv_FormatInt10 (sint (1700000000000 :: 64 word)) = ''1700000000000''"
    by (simp add: strconv_FormatInt10_def digits10_example)
  have sig: "Sign L0 (key c0) SHA256
       (bytes_of_string (AccessID (cfg c0) @ strconv_FormatInt10 (sint (1700000000000 :: 64 word)))) w1
     = (Inr [0x61, 0x63, 0], w2)"
    unfolding ts
    by (simp add: Sign_def L0_def c0_def cfg0_def bytes_of_string_def w2_def Let_def)
      (simp add: w1_def w0_def)
  have enc: "json_Marshal L0
       [''accessId'' \<mapsto> VString (AccessID (cfg c0)),
        ''time'' \<mapsto> VString (strconv_FormatInt10 (sint (1700000000000 :: 64 word))),
        ''secret'' \<mapsto> VString (hex_EncodeToString [0x61, 0x63, 0])] = Inr ''secret=616300''"
    by (simp add: L0_def marshal0_def hextable_def)
  have url: "url_Parse L0 (Endpoint (cfg c0) @ ''/api/contract/shakeHand'') = None"
    by (simp add: L0_def)
  from shakehand_request [OF clock sig enc ctx0_def url]
  have "sent (snd (shakehand L0 c0 ctx0 w0)) =
      sent w0 @ [post_request (Endpoint (cfg c0) @ ''/api/contract/shakeHand'') ''secret=616300'']"
    by (elim conjE)
  then show ?thesis
    by (simp add: c0_def cfg0_def w0_def)
qed

section \<open>The example deployment, run\<close>

lemma shakehand_example:
  "shakehand L0 c0 (Context st) (w0\<lparr>http_Do := h\<rparr>) =
     (outcome L0 (Context st) (after_handshake h) (h 0 hs_request0), after_handshake h)"
proof -
  define w1 where "w1 = w0\<lparr>http_Do := h, time_Now := \<lambda>n. time_Now w0 (Suc n)\<rparr>"
  define w2 where "w2 = w1\<lparr>rsa_SignPKCS1v15 := \<lambda>n. rsa_SignPKCS1v15 w1 (Suc n)\<rparr>"
  have clock: "UnixMilli (w0\<lparr>http_Do := h\<rparr>) = (1700000000000, w1)"
    by (simp add: UnixMilli_def w1_def) (simp add: w0_def)
  have ts: "strconv_FormatInt10 (sint (1700000000000 :: 64 word)) = ''1700000000000''"
    by (simp add: strconv_FormatInt10_def digits10_example)
  have sig: "Sign L0 (key c0) SHA256
       (bytes_of_string (AccessID (cfg c0) @ strconv_FormatInt10 (sint (1700000000000 :: 64 word)))) w1
     = (Inr [0x61, 0x63, 0], w2)"
    unfolding ts
    by (simp add: Sign_def L0_def c0_def cfg0_def bytes_of_string_def w2_def Let_def)
      (simp add: w1_def w0_def)
  have enc: "json_Marshal L0
       [''accessId'' \<mapsto> VString (AccessID (cfg c0)),
        ''time'' \<mapsto> VString (strconv_FormatInt10 (sint (1700000000000 :: 64 word))),
        ''secret'' \<mapsto> VString (hex_EncodeToString [0x61, 0x63, 0])] = Inr ''secret=616300''"
    by (simp add: L0_def marshal0_def hextable_def)
  have url: "url_Parse L0 (Endpoint (cfg c0) @ ''/api/contract/shakeHand'') = None"
    by (simp add: L0_def)
  have w: "w2\<lparr>http_Do := \<lambda>n. http_Do w2 (Suc n),
             sent := sent w2 @ [post_request (Endpoint (cfg c0) @ ''/api/contract/shakeHand'')
                                  ''secret=616300'']\<rparr> = after_handshake h"
    by (simp add: w2_def w1_def w0_def after_handshake_def hs_request0_def c0_def cfg0_def)
  have h0: "http_Do w2 0 (post_request (Endpoint (cfg c0) @ ''/api/contract/shakeHand'')
      ''secret=616300'') = h 0 hs_request0"
    by (simp add: w2_def w1_def hs_request0_def c0_def cfg0_def)
  show ?thesis
    unfolding shakehand_signed [OF clock sig] do_sends [OF enc refl url] w h0 ..
qed

lemma chainCall_example:
  assumes hs: "outcome L0 (Context st) (after_handshake h) (h 0 hs_request0) = Inr tok"
    and enc: "marshal0 (chainCall_params cfg0 m tok opts) = Inr body"
  shows "chainCall L0 c0 (Context st) m opts (w0\<lparr>http_Do := h\<rparr>) =
     (outcome L0 (Context st)
        ((after_handshake h)\<lparr>http_Do := \<lambda>n. h (Suc (Suc n)),
            sent := [hs_request0,
                     post_request ''https://rest.baas.alipay.com/api/contract/chainCall'' body]\<rparr>)
        (h 1 (post_request ''https://rest.baas.alipay.com/api/contract/chainCall'' body)),
      (after_handshake h)\<lparr>http_Do := \<lambda>n. h (Suc (Suc n)),
            sent := [hs_request0,
                     post_request ''https://rest.baas.alipay.com/api/contract/chainCall'' body]\<rparr>)"
proof -
  have enc': "json_Marshal L0 (chainCall_params (cfg c0) m tok opts) = Inr body"
    using enc by (simp add: L0_def c0_def)
  have url: "url_Parse L0 (Endpoint (cfg c0) @ CHAIN_CALL) = None"
    by (simp add: L0_def)
  show ?thesis
    unfolding chainCall_unfold shakehand_example hs
    by (simp add: do_sends [OF enc' refl url])
      (simp add: after_handshake_def c0_def cfg0_def CHAIN_CALL_def)
qed

lemma outcome_example:
  "outcome L0 ctx w (Inr (Response (Inr (body_ok ''tok1'')))) = Inr ''tok1''"
  "outcome L0 ctx w (Inr (Response (Inr (body_ok ''tok2'')))) = Inr ''tok2''"
  "outcome L0 ctx w (Inr (Response (Inr (body_ok ''deadbeef'')))) = Inr ''deadbeef''"
  "outcome L0 ctx w (Inr (Response (Inr body_fail))) = Inl (Errorf ''antchain: E1 | boom'')"
  "outcome L0 ctx w (Inr (Response (Inr body_no_success))) = Inl (Errorf ''antchain: E7 | x'')"
  "outcome L0 ctx w (Inr (Response (Inr body_number))) = Inr ''42''"
  \<open>outcome L0 ctx w (Inr (Response (Inr body_object))) = Inr ''{"a":1}''\<close>
  by (simp_all add: outcome_def L0_def parse0_def body_ok_def body_fail_def body_no_success_def
      body_number_def body_object_def raw_is_integer_def is_digit_def)


section \<open>The response envelope\<close>








lemma do_example:
  assumes enc: "marshal0 params = Inr body"
  shows "do L0 c0 ctx0 url params (w_answer b) =
     (outcome L0 ctx0
        ((w_answer b)\<lparr>http_Do := \<lambda>n req. Inr (Response (Inr b)), sent := [post_request url body]\<rparr>)
        (Inr (Response (Inr b))),
      (w_answer b)\<lparr>http_Do := \<lambda>n req. Inr (Response (Inr b)), sent := [post_request url body]\<rparr>)"
proof -
  have enc': "json_Marshal L0 params = Inr body"
    using enc by (simp add: L0_def)
  have url: "url_Parse L0 url = None"
    by (simp add: L0_def)
  show ?thesis
    unfolding do_sends [OF enc' ctx0_def url]
    by (simp add: w_answer_def w0_def)
qed

lemma parse0_more:
  "gjson_ParseBytes L0 body_no_success =
     JObject body_no_success [(''code'', JString ''E7''), (''data'', JString ''x'')]"
  "gjson_ParseBytes L0 body_number =
     JObject body_number [(''success'', JTrue), (''data'', JNumber ''42'' 42)]"
  \<open>gjson_ParseBytes L0 body_object =
     JObject body_object [(''success'', JTrue),
                          (''data'', JObject ''{"a":1}'' [(''a'', JNumber ''1'' 1)])]\<close>
  by (simp_all add: L0_def parse0_def body_ok_def body_fail_def body_no_success_def
      body_number_def body_object_def)

text \<open>
  C8. Decoding a response envelope: a \<open>success\<close> field that is absent reads as false,
  a \<open>code\<close> field that is absent reads as the empty string, and a \<open>data\<close> field that
  is an object or a number is accepted by its text (the raw text of the object; the raw
  text of an integer number, the printed value of any other number). Hence a response
  whose body has no \<open>success\<close> field makes every call operation fail with the error
  built from its code and data, and is not returned as a payload.
\<close>

theorem envelope_defaults:
  fixes L :: libs and b :: string
  defines "doc \<equiv> gjson_ParseBytes L b"
  defines "failure \<equiv>
     Inl (Errorf (''antchain: '' @ Result_String (strconv_FormatFloat L) (gjson_Get doc ''code'') @
                  '' | '' @ Result_String (strconv_FormatFloat L) (gjson_Get doc ''data'')))"
  shows
  "(map_of members ''success'' = None \<longrightarrow>
      \<not> Result_Bool (gjson_Get (JObject raw members) ''success'')) \<and>
   (map_of members ''code'' = None \<longrightarrow>
      Result_String fmt (gjson_Get (JObject raw members) ''code'') = []) \<and>
   (do L c ctx url params w = (r, w') \<and> sent w' \<noteq> sent w \<and>
    last_response w w' = Inr (Response (Inr b)) \<and> Result_Bool (gjson_Get doc ''success'') \<longrightarrow>
      (gjson_Get doc ''data'' = JObject raw' members' \<longrightarrow> r = Inr raw') \<and>
      (gjson_Get doc ''data'' = JNumber raw' q \<longrightarrow>
         r = Inr (if raw_is_integer raw' then raw' else strconv_FormatFloat L q))) \<and>
   (sent w' \<noteq> sent w \<and> last_response w w' = Inr (Response (Inr b)) \<and>
    doc = JObject raw members \<and> map_of members ''success'' = None \<longrightarrow>
      (do L c ctx url params w = (r, w') \<longrightarrow> r = failure) \<and>
      (shakehand L c ctx w = (r, w') \<longrightarrow> r = failure) \<and>
      (chainCall L c ctx method options w = (r, w') \<longrightarrow> r = failure) \<and>
      (chainCallForBiz L c ctx method options w = (r, w') \<longrightarrow> r = failure))"
proof -
  have 1: "\<not> Result_Bool (gjson_Get (JObject raw members) ''success'')"
    if "map_of members ''success'' = None"
    using that by simp
  have 2: "Result_String fmt (gjson_Get (JObject raw members) ''code'') = []"
    if "map_of members ''code'' = None"
    using that by simp
  have 3: "(gjson_Get doc ''data'' = JObject raw' members' \<longrightarrow> r = Inr raw') \<and>
      (gjson_Get doc ''data'' = JNumber raw' q \<longrightarrow>
         r = Inr (if raw_is_integer raw' then raw' else strconv_FormatFloat L q))"
    if a: "do L c ctx url params w = (r, w')" "sent w' \<noteq> sent w"
      and b: "last_response w w' = Inr (Response (Inr b))" "Result_Bool (gjson_Get doc ''success'')"
  proof -
    have "r = Inr (Result_String (strconv_FormatFloat L) (gjson_Get doc ''data''))"
      unfolding do_last [OF a] using b by (simp add: outcome_def Let_def doc_def)
    then show ?thesis by simp
  qed
  have 4: "(do L c ctx url params w = (r, w') \<longrightarrow> r = failure) \<and>
      (shakehand L c ctx w = (r, w') \<longrightarrow> r = failure) \<and>
      (chainCall L c ctx method options w = (r, w') \<longrightarrow> r = failure) \<and>
      (chainCallForBiz L c ctx method options w = (r, w') \<longrightarrow> r = failure)"
    if s: "sent w' \<noteq> sent w"
      and b: "last_response w w' = Inr (Response (Inr b))"
        "doc = JObject raw members" "map_of members ''success'' = None"
  proof -
    have o: "outcome L ctx w' (last_response w w') = failure"
      using b by (simp add: outcome_def Let_def doc_def [symmetric] failure_def)
    then have "isl (outcome L ctx w' (last_response w w'))"
      by (simp add: failure_def)
    from call_outcome [OF s this, of c url params r "method" "options"]
    show ?thesis unfolding o .
  qed
  from 1 2 3 4 show ?thesis by blast
qed

theorem envelope_defaults_witness:
  \<open>fst (do L0 c0 ctx0 ''u'' [''token'' \<mapsto> VString ''t''] (w_answer body_no_success))
     = Inl (Errorf ''antchain: E7 | x'') \<and>
   fst (do L0 c0 ctx0 ''u'' [''token'' \<mapsto> VString ''t''] (w_answer body_number)) = Inr ''42'' \<and>
   fst (do L0 c0 ctx0 ''u'' [''token'' \<mapsto> VString ''t''] (w_answer body_object))
     = Inr ''{"a":1}''\<close>
proof -
  define W where "W b = (w_answer b)\<lparr>http_Do := \<lambda>n req. Inr (Response (Inr b)),
      sent := [post_request ''u'' ''token=t'']\<rparr>" for b
  have enc: "marshal0 [''token'' \<mapsto> VString ''t''] = Inr ''token=t''"
    by (simp add: marshal0_def)
  have call: "do L0 c0 ctx0 ''u'' [''token'' \<mapsto> VString ''t''] (w_answer b) =
      (outcome L0 ctx0 (W b) (Inr (Response (Inr b))), W b)" for b
    unfolding do_example [OF enc] W_def ..
  have sent: "sent (W b) \<noteq> sent (w_answer b)" for b
    by (simp add: W_def w_answer_def w0_def)
  have answer: "last_response (w_answer b) (W b) = Inr (Response (Inr b))" for b
    by (simp add: last_response_def W_def w_answer_def w0_def)
  note inst = envelope_defaults [where L = L0 and c = c0 and ctx = ctx0 and url = "''u''"
      and params = "[''token'' \<mapsto> VString ''t'']"]
  have "map_of [(''code'', JString ''E7''), (''data'', JString ''x'')] ''success'' = None"
    by simp
  with sent answer parse0_more(1)
  have "do L0 c0 ctx0 ''u'' [''token'' \<mapsto> VString ''t''] (w_answer body_no_success)
          = (outcome L0 ctx0 (W body_no_success) (Inr (Response (Inr body_no_success))),
             W body_no_success) \<longrightarrow>
        outcome L0 ctx0 (W body_no_success) (Inr (Response (Inr body_no_success))) =
        Inl (Errorf (''antchain: '' @
          Result_String (strconv_FormatFloat L0) (gjson_Get (gjson_ParseBytes L0 body_no_success) ''code'') @
          '' | '' @
          Result_String (strconv_FormatFloat L0) (gjson_Get (gjson_ParseBytes L0 body_no_success) ''data'')))"
    using inst [where b = body_no_success and w = "w_answer body_no_success"
        and w' = "W body_no_success" and raw = body_no_success
        and members = "[(''code'', JString ''E7''), (''data'', JString ''x'')]"
        and r = "outcome L0 ctx0 (W body_no_success) (Inr (Response (Inr body_no_success)))"]
    by blast
  then have 1: "fst (do L0 c0 ctx0 ''u'' [''token'' \<mapsto> VString ''t''] (w_answer body_no_success))
     = Inl (Errorf ''antchain: E7 | x'')"
    unfolding call by (simp add: parse0_more(1))
  have "Result_Bool (gjson_Get (gjson_ParseBytes L0 body_number) ''success'')"
    "gjson_Get (gjson_ParseBytes L0 body_number) ''data'' = JNumber ''42'' 42"
    by (simp_all add: parse0_more(2))
  with sent answer call
  have "outcome L0 ctx0 (W body_number) (Inr (Response (Inr body_number))) =
      Inr (if raw_is_integer ''42'' then ''42'' else strconv_FormatFloat L0 42)"
    using inst [where b = body_number and w = "w_answer body_number"
        and w' = "W body_number" and raw' = "''42''" and q = 42
        and r = "outcome L0 ctx0 (W body_number) (Inr (Response (Inr body_number)))"]
    by blast
  then have 2: "fst (do L0 c0 ctx0 ''u'' [''token'' \<mapsto> VString ''t''] (w_answer body_number))
      = Inr ''42''"
    unfolding call by (simp add: raw_is_integer_def is_digit_def)
  have \<open>Result_Bool (gjson_Get (gjson_ParseBytes L0 body_object) ''success'')\<close>
    \<open>gjson_Get (gjson_ParseBytes L0 body_object) ''data''
       = JObject ''{"a":1}'' [(''a'', JNumber ''1'' 1)]\<close>
    by (simp_all add: parse0_more(3))
  with sent answer call
  have \<open>outcome L0 ctx0 (W body_object) (Inr (Response (Inr body_object))) = Inr ''{"a":1}''\<close>
    using inst [where b = body_object and w = "w_answer body_object"
        and w' = "W body_object" and raw' = \<open>''{"a":1}''\<close>
        and members' = "[(''a'', JNumber ''1'' 1)]"
        and r = "outcome L0 ctx0 (W body_object) (Inr (Response (Inr body_object)))"]
    by blast
  then have 3: \<open>fst (do L0 c0 ctx0 ''u'' [''token'' \<mapsto> VString ''t''] (w_answer body_object))
      = Inr ''{"a":1}''\<close>
    unfolding call by simp
  from 1 2 3 show ?thesis by blast
qed

section \<open>Caller options and protocol fields\<close>

lemma apply_options_append:
  "apply_options (xs @ ys) p = apply_options ys (apply_options xs p)"
  by (induction xs arbitrary: p) auto

lemma apply_options_WithParam_other:
  "k \<notin> fst ` set kvs \<Longrightarrow>
     apply_options (map (\<lambda>(k', v'). WithParam k' v') kvs) p k = p k"
  by (induction kvs arbitrary: p) (auto simp: WithParam_def)

lemma apply_options_last_write:
  assumes "k \<notin> fst ` set later"
  shows "apply_options
           (before @ [WithParam k v1] @ between @ [WithParam k v2] @
            map (\<lambda>(k', v'). WithParam k' v') later) p k = Some v2"
  using assms
  by (simp add: apply_options_append apply_options_WithParam_other) (simp add: WithParam_def)

text \<open>
  C9. For every list of caller options, whatever the options wrote: the mapping that
  \<open>chainCall\<close> passes to \<open>do\<close> holds the protocol's values at \<open>bizid\<close>,
  \<open>accessId\<close>, \<open>method\<close> and \<open>token\<close>, and the mapping that \<open>chainCallForBiz\<close>
  passes holds them at \<open>orderId\<close>, \<open>bizid\<close>, \<open>account\<close>, \<open>mykmsKeyId\<close>,
  \<open>method\<close>, \<open>accessId\<close>, \<open>tenantid\<close> and \<open>token\<close>, because these assignments
  come after the option loop.
\<close>

theorem injected_fields_override:
  "chainCall L c ctx method options w =
     (case shakehand L c ctx w of
        (Inl err, w1) \<Rightarrow> (Inl err, w1)
      | (Inr token, w1) \<Rightarrow>
          do L c ctx (Endpoint (cfg c) @ CHAIN_CALL)
            (chainCall_params (cfg c) method token options) w1) \<and>
   chainCall_params cf method token options ''bizid'' = Some (VString (BizID cf)) \<and>
   chainCall_params cf method token options ''accessId'' = Some (VString (AccessID cf)) \<and>
   chainCall_params cf method token options ''method'' = Some (VString method) \<and>
   chainCall_params cf method token options ''token'' = Some (VString token) \<and>
   chainCallForBiz L c ctx method options w =
     (case shakehand L c ctx w of
        (Inl err, w1) \<Rightarrow> (Inl err, w1)
      | (Inr token, w1) \<Rightarrow>
          (case uuid_New w1 of
             (u, w2) \<Rightarrow>
               do L c ctx (Endpoint (cfg c) @ CHAIN_CALL_FOR_BIZ)
                 (chainCallForBiz_params (cfg c) method token (uuid_String u) options) w2)) \<and>
   chainCallForBiz_params cf method token orderId options ''orderId'' = Some (VString orderId) \<and>
   chainCallForBiz_params cf method token orderId options ''bizid'' = Some (VString (BizID cf)) \<and>
   chainCallForBiz_params cf method token orderId options ''account'' = Some (VString (Account cf)) \<and>
   chainCallForBiz_params cf method token orderId options ''mykmsKeyId''
     = Some (VString (MyKmsKeyID cf)) \<and>
   chainCallForBiz_params cf method token orderId options ''method'' = Some (VString method) \<and>
   chainCallForBiz_params cf method token orderId options ''accessId''
     = Some (VString (AccessID cf)) \<and>
   chainCallForBiz_params cf method token orderId options ''tenantid''
     = Some (VString (TenantID cf)) \<and>
   chainCallForBiz_params cf method token orderId options ''token'' = Some (VString token)"
  by (simp add: chainCall_unfold [symmetric] chainCallForBiz_unfold [symmetric]
      chainCall_params_def chainCallForBiz_params_def)

theorem injected_fields_override_witness:
  "chainCall_params cfg0 ''QueryAccount'' ''tok1''
     [WithParam ''token'' (VString ''forged''), WithParam ''bizid'' VNil] ''token''
     = Some (VString ''tok1'') \<and>
   chainCallForBiz_params cfg0 ''Deposit'' ''tok1'' ''id-1''
     [WithParam ''orderId'' (VString ''mine''), WithParam ''tenantid'' (VInt 7)] ''orderId''
     = Some (VString ''id-1'')"
  using injected_fields_override [of L0 c0 ctx0 "''QueryAccount''"
      "[WithParam ''token'' (VString ''forged''), WithParam ''bizid'' VNil]" w0 cfg0 "''tok1''"]
    injected_fields_override [of L0 c0 ctx0 "''Deposit''"
      "[WithParam ''orderId'' (VString ''mine''), WithParam ''tenantid'' (VInt 7)]" w0 cfg0
      "''tok1''" "''id-1''"]
  by blast

text \<open>
  C6, as amended. For every list of caller options applied in the order given, when two
  injectors set the same key and no later injector sets it, the mapping that the option
  loop has built holds the value of the later one; and so does the assembled mapping,
  unless the key is one of the protocol's fields (\<open>bizid\<close>, \<open>accessId\<close>, \<open>method\<close>,
  \<open>token\<close>, and for a business-scoped call also \<open>orderId\<close>, \<open>account\<close>,
  \<open>mykmsKeyId\<close>, \<open>tenantid\<close>), which hold the protocol's values.
\<close>

theorem last_write_wins:
  assumes later: "k \<notin> fst ` set later"
  shows "apply_options
           (before @ [WithParam k v1] @ between @ [WithParam k v2] @
            map (\<lambda>(k', v'). WithParam k' v') later) p k = Some v2 \<and>
         (k \<notin> {''bizid'', ''accessId'', ''method'', ''token''} \<longrightarrow>
            chainCall_params cf method token
              (before @ [WithParam k v1] @ between @ [WithParam k v2] @
               map (\<lambda>(k', v'). WithParam k' v') later) k = Some v2) \<and>
         (k \<notin> {''orderId'', ''bizid'', ''account'', ''mykmsKeyId'', ''method'', ''accessId'',
                 ''tenantid'', ''token''} \<longrightarrow>
            chainCallForBiz_params cf method token orderId
              (before @ [WithParam k v1] @ between @ [WithParam k v2] @
               map (\<lambda>(k', v'). WithParam k' v') later) k = Some v2)"
  using apply_options_last_write [OF later]
  by (simp add: chainCall_params_def chainCallForBiz_params_def)

theorem last_write_wins_witness:
  "chainCall_params cfg0 ''Deposit'' ''tok1''
     [WithParam ''gas'' (VInt 1), WithParam ''content'' (VString ''x''),
      WithParam ''gas'' (VInt 2), WithParam ''note'' VNil] ''gas'' = Some (VInt 2)"
proof -
  have "''gas'' \<notin> fst ` set [(''note'', VNil)]"
    by simp
  from last_write_wins [OF this, of "[]" "VInt 1" "[WithParam ''content'' (VString ''x'')]"
      "VInt 2" Map.empty cfg0 "''Deposit''" "''tok1''"]
  show ?thesis
    by simp
qed

text \<open>
  C6, as stated, fails on a protocol key. Two injectors set \<open>token\<close>, to \<open>a\<close> and
  then to \<open>b\<close>: the option loop leaves \<open>b\<close>, but the assembled mapping does not hold
  \<open>b\<close>, and the request that is posted carries the token of the handshake.
\<close>

theorem last_write_wins_counterexample:
  "apply_options [WithParam ''token'' (VString ''a''), WithParam ''token'' (VString ''b'')]
     Map.empty ''token'' = Some (VString ''b'') \<and>
   chainCall_params cfg0 ''QueryAccount'' ''tok1''
     [WithParam ''token'' (VString ''a''), WithParam ''token'' (VString ''b'')] ''token''
     \<noteq> Some (VString ''b'') \<and>
   fst (chainCall L0 c0 ctx0 ''QueryAccount''
     [WithParam ''token'' (VString ''a''), WithParam ''token'' (VString ''b'')] w0)
     = Inr ''deadbeef'' \<and>
   sent (snd (chainCall L0 c0 ctx0 ''QueryAccount''
     [WithParam ''token'' (VString ''a''), WithParam ''token'' (VString ''b'')] w0))
     = [hs_request0,
        post_request ''https://rest.baas.alipay.com/api/contract/chainCall'' ''token=tok1'']"
proof -
  have w: "w0 = w0\<lparr>http_Do := answers0\<rparr>"
    by (simp add: w0_def)
  have hs: "outcome L0 (Context (\<lambda>t. None)) (after_handshake answers0) (answers0 0 hs_request0)
      = Inr ''tok1''"
    by (simp add: answers0_def outcome_example)
  have enc: "marshal0 (chainCall_params cfg0 ''QueryAccount'' ''tok1''
      [WithParam ''token'' (VString ''a''), WithParam ''token'' (VString ''b'')]) = Inr ''token=tok1''"
    by (simp add: marshal0_def chainCall_params_def WithParam_def)
  note call = chainCall_example [OF hs enc, folded w ctx0_def]
  show ?thesis
    unfolding call
    by (simp add: chainCall_params_def WithParam_def answers0_def outcome_example)
qed

section \<open>The token of a call\<close>

lemma do_sent_cases:
  "sent (snd (do L c ctx url params w)) = sent w \<or>
   (\<exists>body. json_Marshal L params = Inr body \<and>
      sent (snd (do L c ctx url params w)) = sent w @ [post_request url body])"
proof -
  obtain r w' where d: "do L c ctx url params w = (r, w')"
    by (cases "do L c ctx url params w")
  from do_effect [OF d] show ?thesis
    unfolding d by auto
qed

lemma digits10_example2: "digits10 1700000000001 = ''1700000000001''"
  by (simp add: digits10.simps)

text \<open>
  C2. Every generic call and every business-scoped call begins, in whatever world it
  starts, with a full handshake. When the handshake fails the call returns its error
  and does nothing more. When it returns the token, one handshake request has been
  sent, the mapping the call assembles holds that token at \<open>token\<close>, and after the
  handshake the call sends at most one request, the encoding of that mapping: the token
  is used once. The world has no place where a token is kept, and the statement holds for
  the world an earlier call has left behind: a second call uses the token of its own
  handshake, as the example of two calls in a row shows.
\<close>

theorem token_from_own_handshake:
  assumes hs: "shakehand L c ctx w = (r1, w1)"
  shows "case r1 of
           Inl err \<Rightarrow>
             chainCall L c ctx method options w = (Inl err, w1) \<and>
             chainCallForBiz L c ctx method options w = (Inl err, w1)
         | Inr token \<Rightarrow>
             (\<exists>hbody. sent w1 = sent w @ [post_request (Endpoint (cfg c) @ SHAKE_HAND) hbody]) \<and>
             chainCall_params (cfg c) method token options ''token'' = Some (VString token) \<and>
             chainCall L c ctx method options w =
               do L c ctx (Endpoint (cfg c) @ CHAIN_CALL)
                 (chainCall_params (cfg c) method token options) w1 \<and>
             (sent (snd (chainCall L c ctx method options w)) = sent w1 \<or>
              (\<exists>body. json_Marshal L (chainCall_params (cfg c) method token options) = Inr body \<and>
                 sent (snd (chainCall L c ctx method options w)) =
                   sent w1 @ [post_request (Endpoint (cfg c) @ CHAIN_CALL) body])) \<and>
             (\<exists>u w2. uuid_New w1 = (u, w2) \<and>
                chainCallForBiz_params (cfg c) method token (uuid_String u) options ''token''
                  = Some (VString token) \<and>
                chainCallForBiz L c ctx method options w =
                  do L c ctx (Endpoint (cfg c) @ CHAIN_CALL_FOR_BIZ)
                    (chainCallForBiz_params (cfg c) method token (uuid_String u) options) w2 \<and>
                (sent (snd (chainCallForBiz L c ctx method options w)) = sent w1 \<or>
                 (\<exists>body. json_Marshal L
                            (chainCallForBiz_params (cfg c) method token (uuid_String u) options)
                          = Inr body \<and>
                    sent (snd (chainCallForBiz L c ctx method options w)) =
                      sent w1 @ [post_request (Endpoint (cfg c) @ CHAIN_CALL_FOR_BIZ) body])))"
proof (cases r1)
  case (Inl err)
  then show ?thesis
    using hs by (simp add: chainCall_unfold chainCallForBiz_unfold)
next
  case (Inr token)
  from shakehand_effect [OF hs] Inr
  have 1: "\<exists>hbody. sent w1 = sent w @ [post_request (Endpoint (cfg c) @ SHAKE_HAND) hbody]"
    by auto
  have 2: "chainCall_params (cfg c) method token options ''token'' = Some (VString token)"
    by (simp add: chainCall_params_def)
  have 3: "chainCall L c ctx method options w =
      do L c ctx (Endpoint (cfg c) @ CHAIN_CALL) (chainCall_params (cfg c) method token options) w1"
    using hs Inr by (simp add: chainCall_unfold)
  note 4 = do_sent_cases [of L c ctx "Endpoint (cfg c) @ CHAIN_CALL"
      "chainCall_params (cfg c) method token options" w1, folded 3]
  obtain u w2 where u: "uuid_New w1 = (u, w2)"
    by (cases "uuid_New w1")
  have 5: "chainCallForBiz_params (cfg c) method token (uuid_String u) options ''token''
      = Some (VString token)"
    by (simp add: chainCallForBiz_params_def)
  have 6: "chainCallForBiz L c ctx method options w =
      do L c ctx (Endpoint (cfg c) @ CHAIN_CALL_FOR_BIZ)
        (chainCallForBiz_params (cfg c) method token (uuid_String u) options) w2"
    using hs Inr u by (simp add: chainCallForBiz_unfold)
  note 7 = do_sent_cases [of L c ctx "Endpoint (cfg c) @ CHAIN_CALL_FOR_BIZ"
      "chainCallForBiz_params (cfg c) method token (uuid_String u) options" w2, folded 6,
      unfolded uuid_New_effect(1) [OF u]]
  from u 5 6 7 have 8: "\<exists>u w2. uuid_New w1 = (u, w2) \<and>
                chainCallForBiz_params (cfg c) method token (uuid_String u) options ''token''
                  = Some (VString token) \<and>
                chainCallForBiz L c ctx method options w =
                  do L c ctx (Endpoint (cfg c) @ CHAIN_CALL_FOR_BIZ)
                    (chainCallForBiz_params (cfg c) method token (uuid_String u) options) w2 \<and>
                (sent (snd (chainCallForBiz L c ctx method options w)) = sent w1 \<or>
                 (\<exists>body. json_Marshal L
                            (chainCallForBiz_params (cfg c) method token (uuid_String u) options)
                          = Inr body \<and>
                    sent (snd (chainCallForBiz L c ctx method options w)) =
                      sent w1 @ [post_request (Endpoint (cfg c) @ CHAIN_CALL_FOR_BIZ) body]))"
    by blast
  from 1 2 3 4 8 show ?thesis
    unfolding Inr by (simp only: sum.case)
qed

theorem token_from_own_handshake_witness:
  "sent (snd (chainCall L0 c0 ctx0 ''QueryAccount'' []
            (snd (chainCall L0 c0 ctx0 ''QueryLastBlock'' [] w0)))) =
     [post_request ''https://rest.baas.alipay.com/api/contract/shakeHand'' ''secret=616300'',
      post_request ''https://rest.baas.alipay.com/api/contract/chainCall'' ''token=tok1'',
      post_request ''https://rest.baas.alipay.com/api/contract/shakeHand'' ''secret=616301'',
      post_request ''https://rest.baas.alipay.com/api/contract/chainCall'' ''token=tok2'']"
proof -
  define rq1 where
    "rq1 = post_request ''https://rest.baas.alipay.com/api/contract/chainCall'' ''token=tok1''"
  define W2 where "W2 = (after_handshake answers0)\<lparr>http_Do := \<lambda>n. answers0 (Suc (Suc n)),
      sent := [hs_request0, rq1]\<rparr>"
  have w: "w0 = w0\<lparr>http_Do := answers0\<rparr>"
    by (simp add: w0_def)
  have hs1: "outcome L0 (Context (\<lambda>t. None)) (after_handshake answers0) (answers0 0 hs_request0)
      = Inr ''tok1''"
    by (simp add: answers0_def outcome_example)
  have enc1: "marshal0 (chainCall_params cfg0 ''QueryLastBlock'' ''tok1'' []) = Inr ''token=tok1''"
    by (simp add: marshal0_def chainCall_params_def)
  have first: "snd (chainCall L0 c0 ctx0 ''QueryLastBlock'' [] w0) = W2"
    unfolding chainCall_example [OF hs1 enc1, folded w ctx0_def] W2_def rq1_def by simp
  define w1 where "w1 = W2\<lparr>time_Now := \<lambda>n. time_Now W2 (Suc n)\<rparr>"
  define w2 where "w2 = w1\<lparr>rsa_SignPKCS1v15 := \<lambda>n. rsa_SignPKCS1v15 w1 (Suc n)\<rparr>"
  define rq2 where
    "rq2 = post_request ''https://rest.baas.alipay.com/api/contract/shakeHand'' ''secret=616301''"
  define W3 where "W3 = w2\<lparr>http_Do := \<lambda>n. http_Do w2 (Suc n), sent := sent w2 @ [rq2]\<rparr>"
  have clock: "UnixMilli W2 = (1700000000001, w1)"
    by (simp add: UnixMilli_def w1_def) (simp add: W2_def after_handshake_def)
  have ts: "strconv_FormatInt10 (sint (1700000000001 :: 64 word)) = ''1700000000001''"
    by (simp add: strconv_FormatInt10_def digits10_example2)
  have sig: "Sign L0 (key c0) SHA256
       (bytes_of_string (AccessID (cfg c0) @ strconv_FormatInt10 (sint (1700000000001 :: 64 word)))) w1
     = (Inr [0x61, 0x63, 1], w2)"
    unfolding ts
    by (simp add: Sign_def L0_def c0_def cfg0_def bytes_of_string_def w2_def Let_def)
      (simp add: w1_def W2_def after_handshake_def)
  have enc: "json_Marshal L0
       [''accessId'' \<mapsto> VString (AccessID (cfg c0)),
        ''time'' \<mapsto> VString (strconv_FormatInt10 (sint (1700000000001 :: 64 word))),
        ''secret'' \<mapsto> VString (hex_EncodeToString [0x61, 0x63, 1])] = Inr ''secret=616301''"
    by (simp add: L0_def marshal0_def hextable_def)
  have url: "url_Parse L0 u = None" for u
    by (simp add: L0_def)
  have h2: "http_Do w2 0 rq2 = Inr (Response (Inr (body_ok ''tok2'')))"
    by (simp add: w2_def w1_def W2_def answers0_def)
  have e: "post_request (Endpoint (cfg c0) @ ''/api/contract/shakeHand'') ''secret=616301'' = rq2"
    by (simp add: rq2_def c0_def cfg0_def)
  have hs2: "shakehand L0 c0 ctx0 W2 = (Inr ''tok2'', W3)"
    unfolding shakehand_signed [OF clock sig] do_sends [OF enc ctx0_def url] e h2 outcome_example
      W3_def ..
  from token_from_own_handshake [OF hs2, of "''QueryAccount''" "[]"]
  have second: "chainCall L0 c0 ctx0 ''QueryAccount'' [] W2 =
      do L0 c0 ctx0 (Endpoint (cfg c0) @ CHAIN_CALL)
        (chainCall_params (cfg c0) ''QueryAccount'' ''tok2'' []) W3"
    by simp
  have enc2: "json_Marshal L0 (chainCall_params (cfg c0) ''QueryAccount'' ''tok2'' [])
      = Inr ''token=tok2''"
    by (simp add: L0_def marshal0_def chainCall_params_def)
  show ?thesis
    unfolding first second do_sends [OF enc2 ctx0_def url]
    by (simp add: W3_def w2_def w1_def W2_def rq1_def rq2_def hs_request0_def c0_def cfg0_def
        CHAIN_CALL_def)
qed

section \<open>The business-scoped call\<close>

lemma uuid_example:
  "uuid_String (fst (uuid_New w)) = ''03142536-4758-497a-8b9c-adbecfe0f102''"
  if "rand_Reader w = (\<lambda>n. of_nat (17 * n + 3))"
  unfolding uuid_New_explicit Let_def uuid_String_explicit that
  by (simp add: hextable_def unat_high_nibble unat_low_nibble)





end
